theory Spec2Isabelle
  imports Complex_Main
begin

section \<open>Data model (main.go, lines 12-26)\<close>

text \<open>
  \<^verbatim>\<open>type Property struct { Type string }\<close> and
  \<^verbatim>\<open>type Schema struct { Title, Type string; Properties map[string]Property; Required []string }\<close>.
  The field \<^verbatim>\<open>Type\<close> of \<^verbatim>\<open>Schema\<close> is called \<open>SchemaType\<close> here, since a
  record field name can be used once; no function of the program reads it.
  A Go map is a partial function. A nil map is read like an empty one (a lookup
  misses, a range runs zero times), so both are \<open>Map.empty\<close>.
\<close>

record Property =
  Type :: string

record Schema =
  Title :: string
  SchemaType :: string
  Properties :: "string \<rightharpoonup> Property"
  Required :: "string list"

text \<open>
  The values stored in a \<^verbatim>\<open>map[string]interface{}\<close> by this program: a string, an
  \<^verbatim>\<open>int\<close>, the \<^verbatim>\<open>float64\<close> constant 0.0, a bool, or nil.
\<close>

datatype val = VString string | VInt int | VFloat real | VBool bool | VNil

type_synonym obj = "string \<rightharpoonup> val"

text \<open>
  What \<^verbatim>\<open>responseObj\<close> holds when it reaches the encoder: a slice of objects, one
  object, or a \<^verbatim>\<open>map[string]string\<close>.
\<close>

datatype responseObj = RList "obj list" | RObj obj | RMsg "string \<rightharpoonup> string"

text \<open>
  A response as the handler leaves it: the status code, the Content-Type header and
  the value written. \<open>Plain\<close> is the text \<^verbatim>\<open>http.Error\<close> writes, \<open>Encoded\<close> the
  value handed to \<^verbatim>\<open>json.NewEncoder(w).Encode\<close>.
\<close>

datatype payload = Plain string | Encoded responseObj

record response =
  status :: nat
  contentType :: string
  body :: payload

definition StatusOK :: nat where "StatusOK = 200"
definition StatusBadRequest :: nat where "StatusBadRequest = 400"
definition StatusNotFound :: nat where "StatusNotFound = 404"
definition StatusMethodNotAllowed :: nat where "StatusMethodNotAllowed = 405"

definition MethodGet :: string where "MethodGet = ''GET''"
definition MethodPost :: string where "MethodPost = ''POST''"
definition MethodPut :: string where "MethodPut = ''PUT''"
definition MethodDelete :: string where "MethodDelete = ''DELETE''"

text \<open>
  \<^verbatim>\<open>http.Error(w, msg, code)\<close> sets a plain-text content type, writes the status
  and prints the message followed by a newline. \<^verbatim>\<open>http.NotFound\<close> is
  \<^verbatim>\<open>http.Error\<close> with the text "404 page not found".
\<close>

definition httpError :: "string \<Rightarrow> nat \<Rightarrow> response" where
  "httpError msg code =
     \<lparr>status = code, contentType = ''text/plain; charset=utf-8'',
      body = Plain (msg @ [CHR 0x0A])\<rparr>"

definition NotFound :: response where
  "NotFound = httpError ''404 page not found'' StatusNotFound"

text \<open>
  The end of both handlers: the Content-Type header is set to JSON and the value is
  encoded; no status is written explicitly, so it is 200.
\<close>

definition writeJSON :: "responseObj \<Rightarrow> response" where
  "writeJSON v = \<lparr>status = StatusOK, contentType = ''application/json'', body = Encoded v\<rparr>"

section \<open>Ranging over a map\<close>

text \<open>
  A \<^verbatim>\<open>for key, prop := range m\<close> visits every key of the map once, in an order the
  runtime chooses anew for each loop. The order of one loop is a list of keys;
  \<open>range_order m ks\<close> says that \<open>ks\<close> is such a list for \<open>m\<close>.
\<close>

definition range_order :: "('k \<rightharpoonup> 'v) \<Rightarrow> 'k list \<Rightarrow> bool" where
  "range_order m ks = (distinct ks \<and> set ks = dom m)"

section \<open>dummyData (main.go, lines 29-49)\<close>

text \<open>
  The loop of \<^verbatim>\<open>dummyData\<close> over the keys in the order \<open>ks\<close>, with the switch on
  \<^verbatim>\<open>prop.Type\<close> as its body.
\<close>

fun dummyData_loop :: "(string \<rightharpoonup> Property) \<Rightarrow> string list \<Rightarrow> obj \<Rightarrow> obj" where
  "dummyData_loop props [] data = data"
| "dummyData_loop props (key # rest) data =
     (case props key of
        None \<Rightarrow> dummyData_loop props rest data
      | Some prop \<Rightarrow>
          dummyData_loop props rest
            (if Type prop = ''string'' then data(key \<mapsto> VString ''example'')
             else if Type prop = ''integer'' then data(key \<mapsto> VInt 1)
             else if Type prop = ''number'' then data(key \<mapsto> VFloat 0)
             else if Type prop = ''boolean'' then data(key \<mapsto> VBool False)
             else data(key \<mapsto> VNil)))"

definition dummyData :: "string list \<Rightarrow> Schema option \<Rightarrow> obj" where
  "dummyData ks currentSchema =
     (case currentSchema of
        None \<Rightarrow> Map.empty
      | Some cs \<Rightarrow> dummyData_loop (Properties cs) ks Map.empty)"

section \<open>Library functions the handlers call\<close>

text \<open>
  Go strings are byte sequences, modelled as \<open>string\<close> (a list of \<open>char\<close>, one per
  byte). The functions below are those of the Go standard library that
  \<^verbatim>\<open>catchAllHandler\<close> calls, each for the arguments it is called with.
\<close>

text \<open>
  \<^verbatim>\<open>strings.Trim(s, "/")\<close>: for a cutset of one ASCII byte the library removes that
  byte from the right end and then from the left end.
\<close>

definition Trim :: "string \<Rightarrow> char \<Rightarrow> string" where
  "Trim s c = dropWhile (\<lambda>x. x = c) (rev (dropWhile (\<lambda>x. x = c) (rev s)))"

text \<open>
  \<^verbatim>\<open>strings.Split(s, "/")\<close>: the pieces of \<open>s\<close> between the occurrences of the
  separator byte; one piece more than there are separators, so the empty string gives
  one empty piece.
\<close>

fun Split :: "string \<Rightarrow> char \<Rightarrow> string list" where
  "Split [] sep = [[]]"
| "Split (x # xs) sep =
     (if x = sep then [] # Split xs sep
      else (case Split xs sep of
              [] \<Rightarrow> [[x]]
            | seg # segs \<Rightarrow> (x # seg) # segs))"

text \<open>
  \<^verbatim>\<open>strings.ToLower\<close>: when every byte is ASCII (below \<^verbatim>\<open>utf8.RuneSelf\<close> = 128) the
  library adds \<^verbatim>\<open>'a' - 'A'\<close> to each byte between 'A' and 'Z'. Otherwise it maps
  \<^verbatim>\<open>unicode.ToLower\<close> over the runes; that mapping is the parameter \<open>unicodeLower\<close>.
\<close>

definition lowerByte :: "char \<Rightarrow> char" where
  "lowerByte c =
     (if 65 \<le> (of_char c :: nat) \<and> (of_char c :: nat) \<le> 90
      then char_of (of_char c + (32 :: nat)) else c)"

definition ToLower :: "(string \<Rightarrow> string) \<Rightarrow> string \<Rightarrow> string" where
  "ToLower unicodeLower s =
     (if list_all (\<lambda>c. (of_char c :: nat) < 128) s then map lowerByte s
      else unicodeLower s)"

text \<open>
  \<^verbatim>\<open>strconv.Atoi\<close>: an optional sign, then one or more decimal digits and nothing
  else, and a value that fits the type \<^verbatim>\<open>int\<close> (64 bits on the platforms the
  Dockerfile builds for). \<open>None\<close> is the error return.
\<close>

definition intSize :: nat where "intSize = 64"

definition isDigit :: "char \<Rightarrow> bool" where
  "isDigit c = (48 \<le> (of_char c :: nat) \<and> (of_char c :: nat) \<le> 57)"

definition digitVal :: "char \<Rightarrow> int" where
  "digitVal c = int (of_char c) - 48"

definition parseDigits :: "string \<Rightarrow> int option" where
  "parseDigits ds =
     (if ds = [] then None
      else if list_all isDigit ds then Some (foldl (\<lambda>n c. n * 10 + digitVal c) 0 ds)
      else None)"

definition inRange :: "int \<Rightarrow> int option" where
  "inRange v =
     (if v < - (2 ^ (intSize - 1)) then None
      else if 2 ^ (intSize - 1) - 1 < v then None
      else Some v)"

definition Atoi :: "string \<Rightarrow> int option" where
  "Atoi s =
     (case s of
        [] \<Rightarrow> None
      | c # rest \<Rightarrow>
          if c = CHR ''-'' then
            (case parseDigits rest of None \<Rightarrow> None | Some n \<Rightarrow> inRange (- n))
          else if c = CHR ''+'' then
            (case parseDigits rest of None \<Rightarrow> None | Some n \<Rightarrow> inRange n)
          else
            (case parseDigits s of None \<Rightarrow> None | Some n \<Rightarrow> inRange n))"

section \<open>uploadHandler (main.go, lines 52-70)\<close>

text \<open>
  The handler reads and writes the global \<^verbatim>\<open>currentSchema\<close>, a pointer that is nil
  before the first upload: a \<open>Schema option\<close>, passed in and returned.
  \<^verbatim>\<open>json.NewDecoder(r.Body).Decode(&schema)\<close> belongs to the standard library; it is
  the parameter \<open>decode\<close>, which gives for a request body either the text of the error
  (\<open>Inl\<close>) or the decoded schema (\<open>Inr\<close>).
\<close>

definition uploadHandler ::
  "(string \<Rightarrow> string + Schema) \<Rightarrow> Schema option \<Rightarrow> string \<Rightarrow> string
     \<Rightarrow> Schema option \<times> response" where
  "uploadHandler decode currentSchema method reqBody =
     (if method \<noteq> MethodPost then
        (currentSchema, httpError ''Only POST allowed'' StatusMethodNotAllowed)
      else
        (case decode reqBody of
           Inl err \<Rightarrow>
             (currentSchema, httpError (''Invalid JSON schema: '' @ err) StatusBadRequest)
         | Inr schema \<Rightarrow>
             (Some schema,
              writeJSON (RMsg [''message'' \<mapsto> ''Schema uploaded successfully'',
                               ''title'' \<mapsto> Title schema]))))"

section \<open>catchAllHandler (main.go, lines 73-216)\<close>

text \<open>
  One request runs up to three range loops over \<^verbatim>\<open>currentSchema.Properties\<close>. The
  parameter \<open>ord\<close> gives the order of each: \<open>ord n\<close> is the order in which the loop
  number \<open>n\<close> of the request (counted from 0) visits the keys.
\<close>

text \<open>Lines 102-103, 149-150 and 186-187: the look-up of the "id" property.\<close>

definition isIntegerExpected :: "Schema \<Rightarrow> bool" where
  "isIntegerExpected cs =
     (case Properties cs ''id'' of
        None \<Rightarrow> False
      | Some idProp \<Rightarrow> Type idProp = ''integer'')"

text \<open>
  Lines 116-129 and 162-173: the loop that chooses \<^verbatim>\<open>stringKey\<close>, with its two
  variables as arguments. The \<^verbatim>\<open>break\<close> leaves the loop with \<^verbatim>\<open>stringKey = key\<close>.
\<close>

fun stringKey_loop ::
  "(string \<rightharpoonup> Property) \<Rightarrow> string list \<Rightarrow> string \<Rightarrow> bool \<Rightarrow> string" where
  "stringKey_loop props [] stringKey foundKey = stringKey"
| "stringKey_loop props (key # rest) stringKey foundKey =
     (case props key of
        None \<Rightarrow> stringKey_loop props rest stringKey foundKey
      | Some prop \<Rightarrow>
          if key = ''id'' \<and> Type prop = ''string'' then key
          else if Type prop = ''string'' \<and> \<not> foundKey
               then stringKey_loop props rest key foundKey
          else stringKey_loop props rest stringKey foundKey)"

text \<open>Lines 89-94: the loop \<^verbatim>\<open>for i := 1; i <= 3; i++\<close> that builds the list.\<close>

function listLoop ::
  "(nat \<Rightarrow> string list) \<Rightarrow> Schema option \<Rightarrow> int \<Rightarrow> obj list \<Rightarrow> obj list" where
  "listLoop ord currentSchema i list =
     (if i \<le> 3 then
        listLoop ord currentSchema (i + 1)
          (list @ [(dummyData (ord (nat (i - 1))) currentSchema)(''id'' \<mapsto> VInt i)])
      else list)"
  by pat_completeness auto
termination
  by (relation "measure (\<lambda>(ord, cs, i, list). nat (4 - i))") auto

text \<open>The case \<^verbatim>\<open>http.MethodGet\<close> of the switch (lines 86-136).\<close>

definition caseGet ::
  "(nat \<Rightarrow> string list) \<Rightarrow> Schema \<Rightarrow> string list \<Rightarrow> string \<Rightarrow> response" where
  "caseGet ord cs segments entity =
     (if length segments = 1 \<and> segments ! 0 = entity then
        writeJSON (RList (listLoop ord (Some cs) 1 []))
      else if length segments = 2 \<and> segments ! 0 = entity then
        (let requestedID = segments ! 1;
             obj = dummyData (ord 0) (Some cs)
         in if isIntegerExpected cs then
              (case Atoi requestedID of
                 None \<Rightarrow> httpError ''Invalid ID format: expected integer'' StatusBadRequest
               | Some id' \<Rightarrow> writeJSON (RObj (obj(''id'' \<mapsto> VInt id'))))
            else
              (let stringKey = stringKey_loop (Properties cs) (ord 1) ''id'' False
               in writeJSON (RObj (obj(stringKey \<mapsto> VString requestedID)))))
      else NotFound)"

text \<open>The case \<^verbatim>\<open>http.MethodPost\<close> (lines 137-141).\<close>

definition casePost ::
  "(nat \<Rightarrow> string list) \<Rightarrow> Schema \<Rightarrow> string list \<Rightarrow> string \<Rightarrow> response" where
  "casePost ord cs segments entity =
     (let obj = dummyData (ord 0) (Some cs)
      in writeJSON (RObj (obj(''id'' \<mapsto> VInt 1))))"

text \<open>The case \<^verbatim>\<open>http.MethodPut\<close> (lines 142-180).\<close>

definition casePut ::
  "(nat \<Rightarrow> string list) \<Rightarrow> Schema \<Rightarrow> string list \<Rightarrow> string \<Rightarrow> response" where
  "casePut ord cs segments entity =
     (if length segments = 2 \<and> segments ! 0 = entity then
        (let requestedID = segments ! 1;
             obj = dummyData (ord 0) (Some cs)
         in if isIntegerExpected cs then
              (case Atoi requestedID of
                 None \<Rightarrow> httpError ''Invalid ID format: expected integer'' StatusBadRequest
               | Some id' \<Rightarrow> writeJSON (RObj (obj(''id'' \<mapsto> VInt id'))))
            else
              (let stringKey = stringKey_loop (Properties cs) (ord 1) ''id'' False
               in writeJSON (RObj (obj(stringKey \<mapsto> VString requestedID)))))
      else NotFound)"

text \<open>The case \<^verbatim>\<open>http.MethodDelete\<close> (lines 181-206).\<close>

definition caseDelete ::
  "(nat \<Rightarrow> string list) \<Rightarrow> Schema \<Rightarrow> string list \<Rightarrow> string \<Rightarrow> response" where
  "caseDelete ord cs segments entity =
     (if length segments = 2 \<and> segments ! 0 = entity then
        (let requestedID = segments ! 1
         in if isIntegerExpected cs then
              (case Atoi requestedID of
                 None \<Rightarrow> httpError ''Invalid ID format: expected integer'' StatusBadRequest
               | Some id' \<Rightarrow> writeJSON (RMsg [''message'' \<mapsto> ''Deleted successfully'']))
            else writeJSON (RMsg [''message'' \<mapsto> ''Deleted successfully'']))
      else NotFound)"

text \<open>
  The entity name of line 82 and the handler itself. The handler does not assign
  \<^verbatim>\<open>currentSchema\<close>, so it returns the response only.
\<close>

definition entityName :: "(string \<Rightarrow> string) \<Rightarrow> Schema \<Rightarrow> string" where
  "entityName unicodeLower cs = ToLower unicodeLower (Title cs) @ ''s''"

definition catchAllHandler ::
  "(string \<Rightarrow> string) \<Rightarrow> (nat \<Rightarrow> string list) \<Rightarrow> Schema option \<Rightarrow> string \<Rightarrow> string
     \<Rightarrow> response" where
  "catchAllHandler unicodeLower ord currentSchema method urlPath =
     (case currentSchema of
        None \<Rightarrow>
          httpError ''No schema uploaded. Please POST your JSON schema to /upload''
            StatusBadRequest
      | Some cs \<Rightarrow>
          (let path = Trim urlPath (CHR ''/'');
               segments = Split path (CHR ''/'');
               entity = entityName unicodeLower cs
           in if method = MethodGet then caseGet ord cs segments entity
              else if method = MethodPost then casePost ord cs segments entity
              else if method = MethodPut then casePut ord cs segments entity
              else if method = MethodDelete then caseDelete ord cs segments entity
              else httpError ''Method not supported'' StatusMethodNotAllowed))"

section \<open>The schema of the tests (main_test.go, lines 13-24)\<close>

definition createSampleSchema :: Schema where
  "createSampleSchema =
     \<lparr>Title = ''User'', SchemaType = ''object'',
      Properties = [''id'' \<mapsto> \<lparr>Type = ''integer''\<rparr>,
                    ''name'' \<mapsto> \<lparr>Type = ''string''\<rparr>,
                    ''email'' \<mapsto> \<lparr>Type = ''string''\<rparr>],
      Required = [''id'', ''name'', ''email'']\<rparr>"

section \<open>Properties of dummyData\<close>

lemma dummyData_loop_lookup:
  "dummyData_loop props ks data key =
     (if key \<in> set ks then
        (case props key of
           None \<Rightarrow> data key
         | Some prop \<Rightarrow>
             Some (if Type prop = ''string'' then VString ''example''
                   else if Type prop = ''integer'' then VInt 1
                   else if Type prop = ''number'' then VFloat 0
                   else if Type prop = ''boolean'' then VBool False
                   else VNil))
      else data key)"
proof (induction ks arbitrary: data)
  case Nil
  show ?case by simp
next
  case (Cons k rest)
  show ?case
  proof (cases "props k")
    case None
    then show ?thesis using Cons.IH [of data] by auto
  next
    case (Some p)
    then show ?thesis by (simp add: Cons.IH split: option.splits)
  qed
qed

lemma dummyData_lookup:
  assumes "set ks = dom (Properties cs)"
  shows "dummyData ks (Some cs) key =
     (case Properties cs key of
        None \<Rightarrow> None
      | Some prop \<Rightarrow>
          Some (if Type prop = ''string'' then VString ''example''
                else if Type prop = ''integer'' then VInt 1
                else if Type prop = ''number'' then VFloat 0
                else if Type prop = ''boolean'' then VBool False
                else VNil))"
proof (cases "Properties cs key")
  case None
  then show ?thesis by (simp add: dummyData_def dummyData_loop_lookup)
next
  case (Some p)
  then have "key \<in> set ks" using assms by auto
  then show ?thesis using Some by (simp add: dummyData_def dummyData_loop_lookup)
qed

text \<open>
  C4. For a schema \<open>cs\<close> and any order \<open>ks\<close> in which the loop may visit its properties,
  \<^verbatim>\<open>dummyData\<close> has an entry exactly for the declared properties, and the entry of a
  property is fixed by its type tag alone: "string" gives the string "example",
  "integer" the integer 1, "number" the float 0.0, "boolean" false and every other tag
  nil. Replacing the \<^verbatim>\<open>Required\<close> list by any other list leaves the result unchanged.
\<close>

theorem C4_dummyData_by_type:
  assumes "range_order (Properties cs) ks"
  shows "(\<forall>key. dummyData ks (Some cs) key =
            (case Properties cs key of
               None \<Rightarrow> None
             | Some prop \<Rightarrow>
                 Some (if Type prop = ''string'' then VString ''example''
                       else if Type prop = ''integer'' then VInt 1
                       else if Type prop = ''number'' then VFloat 0
                       else if Type prop = ''boolean'' then VBool False
                       else VNil)))
       \<and> (\<forall>r. dummyData ks (Some (cs\<lparr>Required := r\<rparr>)) = dummyData ks (Some cs))"
proof -
  have ks: "set ks = dom (Properties cs)"
    using assms by (simp add: range_order_def)
  have "\<forall>r. dummyData ks (Some (cs\<lparr>Required := r\<rparr>)) = dummyData ks (Some cs)"
    by (simp add: dummyData_def)
  then show ?thesis using dummyData_lookup [OF ks] by blast
qed

theorem C4_dummyData_by_type_witness:
  "dummyData [''email'', ''name'', ''id''] (Some createSampleSchema) ''name''
     = Some (VString ''example'')
   \<and> dummyData [''email'', ''name'', ''id''] (Some createSampleSchema) ''id'' = Some (VInt 1)
   \<and> dummyData [''email'', ''name'', ''id''] (Some createSampleSchema) ''age'' = None
   \<and> dummyData [''email'', ''name'', ''id''] (Some (createSampleSchema\<lparr>Required := []\<rparr>))
       = dummyData [''email'', ''name'', ''id''] (Some createSampleSchema)"
proof -
  have ord: "range_order (Properties createSampleSchema) [''email'', ''name'', ''id'']"
    by (simp add: range_order_def createSampleSchema_def)
  show ?thesis
    using C4_dummyData_by_type [OF ord] by (simp add: createSampleSchema_def)
qed

section \<open>Requests before any upload\<close>

text \<open>
  C7. While \<^verbatim>\<open>currentSchema\<close> is nil, \<^verbatim>\<open>catchAllHandler\<close> answers every request, whatever
  its method and path (and whatever the orders of the loops it never runs), with status
  400 and the text "No schema uploaded. Please POST your JSON schema to /upload", which
  contains "No schema uploaded". The answer does not depend on method or path: the check
  comes before the path is trimmed or the method inspected.
\<close>

theorem C7_no_schema_bad_request:
  "catchAllHandler unicodeLower ord None method urlPath =
     \<lparr>status = 400, contentType = ''text/plain; charset=utf-8'',
      body = Plain (''No schema uploaded. Please POST your JSON schema to /upload''
                     @ [CHR 0x0A])\<rparr>
   \<and> (\<exists>pre post. body (catchAllHandler unicodeLower ord None method urlPath)
                     = Plain (pre @ ''No schema uploaded'' @ post))"
proof -
  have eq: "catchAllHandler unicodeLower ord None method urlPath =
     \<lparr>status = 400, contentType = ''text/plain; charset=utf-8'',
      body = Plain (''No schema uploaded. Please POST your JSON schema to /upload''
                     @ [CHR 0x0A])\<rparr>"
    by (simp add: catchAllHandler_def httpError_def StatusBadRequest_def)
  have "body (catchAllHandler unicodeLower ord None method urlPath)
          = Plain ([] @ ''No schema uploaded''
                      @ (''. Please POST your JSON schema to /upload'' @ [CHR 0x0A]))"
    by (simp add: eq)
  then show ?thesis using eq by blast
qed

section \<open>Uploading a schema\<close>

text \<open>
  C8. For every request body sent to \<^verbatim>\<open>uploadHandler\<close> and every decoder: a method other
  than POST gives status 405 and leaves the stored schema as it was; a POST whose body
  the decoder rejects with the diagnostic \<open>err\<close> gives status 400 with the text
  "Invalid JSON schema: " followed by \<open>err\<close>, and leaves the stored schema as it was; a
  POST whose body decodes to \<open>schema\<close> stores exactly \<open>schema\<close>, whatever was stored
  before, and answers with status 200 and the JSON object with the two members
  "message" = "Schema uploaded successfully" and "title" = the schema's title.
\<close>

theorem C8_upload_outcomes:
  "(method \<noteq> ''POST'' \<longrightarrow>
      fst (uploadHandler decode currentSchema method reqBody) = currentSchema
      \<and> status (snd (uploadHandler decode currentSchema method reqBody)) = 405)
   \<and> (\<forall>err. method = ''POST'' \<and> decode reqBody = Inl err \<longrightarrow>
      fst (uploadHandler decode currentSchema method reqBody) = currentSchema
      \<and> status (snd (uploadHandler decode currentSchema method reqBody)) = 400
      \<and> body (snd (uploadHandler decode currentSchema method reqBody))
          = Plain (''Invalid JSON schema: '' @ err @ [CHR 0x0A]))
   \<and> (\<forall>schema. method = ''POST'' \<and> decode reqBody = Inr schema \<longrightarrow>
      fst (uploadHandler decode currentSchema method reqBody) = Some schema
      \<and> snd (uploadHandler decode currentSchema method reqBody)
          = \<lparr>status = 200, contentType = ''application/json'',
             body = Encoded (RMsg [''message'' \<mapsto> ''Schema uploaded successfully'',
                                   ''title'' \<mapsto> Title schema])\<rparr>)"
  by (simp add: uploadHandler_def MethodPost_def httpError_def writeJSON_def
        StatusMethodNotAllowed_def StatusBadRequest_def StatusOK_def)

theorem C8_upload_outcomes_witness:
  "fst (uploadHandler
          (\<lambda>b. if b = ''{\"title\":\"User\"}'' then Inr createSampleSchema
                else Inl ''invalid character'')
          None ''GET'' ''{\"title\":\"User\"}'') = None
   \<and> status (snd (uploadHandler
          (\<lambda>b. if b = ''{\"title\":\"User\"}'' then Inr createSampleSchema
                else Inl ''invalid character'')
          None ''GET'' ''{\"title\":\"User\"}'')) = 405
   \<and> fst (uploadHandler
          (\<lambda>b. if b = ''{\"title\":\"User\"}'' then Inr createSampleSchema
                else Inl ''invalid character'')
          None ''POST'' ''{invalid json'') = None
   \<and> status (snd (uploadHandler
          (\<lambda>b. if b = ''{\"title\":\"User\"}'' then Inr createSampleSchema
                else Inl ''invalid character'')
          None ''POST'' ''{invalid json'')) = 400
   \<and> fst (uploadHandler
          (\<lambda>b. if b = ''{\"title\":\"User\"}'' then Inr createSampleSchema
                else Inl ''invalid character'')
          None ''POST'' ''{\"title\":\"User\"}'') = Some createSampleSchema
   \<and> status (snd (uploadHandler
          (\<lambda>b. if b = ''{\"title\":\"User\"}'' then Inr createSampleSchema
                else Inl ''invalid character'')
          None ''POST'' ''{\"title\":\"User\"}'')) = 200"
  using
    C8_upload_outcomes [of "''GET''"
      "\<lambda>b. if b = ''{\"title\":\"User\"}'' then Inr createSampleSchema
           else Inl ''invalid character''" None "''{\"title\":\"User\"}''"]
    C8_upload_outcomes [of "''POST''"
      "\<lambda>b. if b = ''{\"title\":\"User\"}'' then Inr createSampleSchema
           else Inl ''invalid character''" None "''{invalid json''"]
    C8_upload_outcomes [of "''POST''"
      "\<lambda>b. if b = ''{\"title\":\"User\"}'' then Inr createSampleSchema
           else Inl ''invalid character''" None "''{\"title\":\"User\"}''"]
  by simp

section \<open>Paths and segments\<close>

text \<open>
  The handler matches a request against a route by the segments of its path:
  \<open>Split (Trim urlPath (CHR ''/'')) (CHR ''/'')\<close>. A request "on /{entity}" is one whose
  segments are \<open>[entity]\<close>, a request "on /{entity}/{idSeg}" one whose segments are
  \<open>[entity, idSeg]\<close>. The paths written literally have these segments whenever the
  entity name and the id segment are non-empty and hold no "/".
\<close>

lemma dropWhile_replicate_append:
  "dropWhile (\<lambda>x. x = c) (replicate n c @ xs) = dropWhile (\<lambda>x. x = c) xs"
  by (induction n) simp_all

lemma Trim_trailing: "Trim (s @ replicate n c) c = Trim s c"
  by (simp add: Trim_def dropWhile_replicate_append)

lemma Trim_leading: "Trim (replicate n c @ s) c = Trim s c"
proof (cases "\<forall>x \<in> set s. x = c")
  case True
  then have a: "dropWhile (\<lambda>x. x = c) (rev s) = []" by simp
  have b: "dropWhile (\<lambda>x. x = c) (rev s @ replicate n c) = []"
    using True by auto
  show ?thesis by (simp only: Trim_def rev_append rev_replicate a b)
next
  case False
  then have "dropWhile (\<lambda>x. x = c) (rev s @ replicate n c)
               = dropWhile (\<lambda>x. x = c) (rev s) @ replicate n c"
    by (auto simp add: dropWhile_append)
  then show ?thesis by (simp add: Trim_def dropWhile_replicate_append)
qed

lemma Trim_no_leading: "Trim s c \<noteq> c # t"
proof
  assume eq: "Trim s c = c # t"
  then have "dropWhile (\<lambda>x. x = c) (rev (dropWhile (\<lambda>x. x = c) (rev s))) \<noteq> []"
    by (simp add: Trim_def)
  from hd_dropWhile [OF this] eq show False by (simp add: Trim_def)
qed

lemma Trim_no_trailing: "Trim s c \<noteq> t @ [c]"
proof
  assume eq: "Trim s c = t @ [c]"
  let ?r = "dropWhile (\<lambda>x. x = c) (rev s)"
  have ne: "Trim s c \<noteq> []" using eq by simp
  have rne: "?r \<noteq> []"
  proof
    assume r: "?r = []"
    have "Trim s c = dropWhile (\<lambda>x. x = c) (rev ?r)" by (simp only: Trim_def)
    also have "\<dots> = []" by (simp only: r rev.simps dropWhile.simps)
    finally show False using ne by simp
  qed
  have h: "hd ?r \<noteq> c" using hd_dropWhile [OF rne] by simp
  have "hd ?r \<in> set (rev ?r)" using rne by simp
  then have "last (dropWhile (\<lambda>x. x = c) (rev ?r)) = last (rev ?r)"
    using h by (rule dropWhile_last)
  then have "last (Trim s c) = hd ?r" by (simp only: Trim_def last_rev)
  then show False using h eq by simp
qed

lemma Trim_clean:
  assumes "s \<noteq> []" and "hd s \<noteq> c" and "last s \<noteq> c"
  shows "Trim s c = s"
proof -
  have "rev s \<noteq> []" and "hd (rev s) \<noteq> c"
    using assms by (simp_all add: hd_rev)
  then have "dropWhile (\<lambda>x. x = c) (rev s) = rev s"
    by (cases "rev s") auto
  moreover have "dropWhile (\<lambda>x. x = c) s = s"
    using assms(1,2) by (cases s) auto
  ultimately show ?thesis by (simp add: Trim_def)
qed

lemma Split_no_sep: "sep \<notin> set s \<Longrightarrow> Split s sep = [s]"
  by (induction s) auto

lemma Split_at_sep: "sep \<notin> set a \<Longrightarrow> Split (a @ sep # b) sep = a # Split b sep"
  by (induction a) auto

lemma path_one_segment:
  assumes "CHR ''/'' \<notin> set e" and "e \<noteq> []"
  shows "Split (Trim (''/'' @ e) (CHR ''/'')) (CHR ''/'') = [e]"
proof -
  have h: "hd e \<noteq> CHR ''/''" using assms by (cases e) auto
  have l: "last e \<noteq> CHR ''/''" using assms by (metis last_in_set)
  have "Trim (''/'' @ e) (CHR ''/'') = Trim e (CHR ''/'')"
    using Trim_leading [of 1 "CHR ''/''" e] by simp
  also have "\<dots> = e"
    using assms(2) h l by (rule Trim_clean)
  finally show ?thesis using assms(1) by (simp add: Split_no_sep)
qed

lemma path_two_segments:
  assumes "CHR ''/'' \<notin> set e" and "e \<noteq> []"
    and "CHR ''/'' \<notin> set seg" and "seg \<noteq> []"
  shows "Split (Trim (''/'' @ e @ ''/'' @ seg) (CHR ''/'')) (CHR ''/'') = [e, seg]"
proof -
  have ne: "e @ ''/'' @ seg \<noteq> []" using assms(2) by simp
  have h: "hd (e @ ''/'' @ seg) \<noteq> CHR ''/''"
    using assms(1,2) by (cases e) auto
  have l: "last (e @ ''/'' @ seg) \<noteq> CHR ''/''"
    using assms(3,4) by (simp add: last_append) (metis last_in_set)
  have "Trim (''/'' @ e @ ''/'' @ seg) (CHR ''/'') = Trim (e @ ''/'' @ seg) (CHR ''/'')"
    using Trim_leading [of 1 "CHR ''/''" "e @ ''/'' @ seg"] by simp
  also have "\<dots> = e @ ''/'' @ seg"
    using ne h l by (rule Trim_clean)
  finally show ?thesis using assms(1,3) by (simp add: Split_at_sep Split_no_sep)
qed

lemma entityName_nonempty: "entityName unicodeLower cs \<noteq> []"
  by (simp add: entityName_def)

lemma users_entity: "entityName (\<lambda>s. s) createSampleSchema = ''users''"
  by (simp add: entityName_def ToLower_def createSampleSchema_def lowerByte_def
        char_of_def bit_0)

section \<open>The list route\<close>

lemma listLoop_three:
  "listLoop ord cs 1 [] =
     [(dummyData (ord 0) cs)(''id'' \<mapsto> VInt 1),
      (dummyData (ord 1) cs)(''id'' \<mapsto> VInt 2),
      (dummyData (ord 2) cs)(''id'' \<mapsto> VInt 3)]"
  by (simp add: numeral_2_eq_2)

lemma dummyData_id_overwritten:
  assumes "range_order (Properties cs) ks"
  shows "(dummyData ks (Some cs))(''id'' \<mapsto> VInt i) =
     (\<lambda>key. if key = ''id'' then Some (VInt i)
            else (case Properties cs key of
                    None \<Rightarrow> None
                  | Some prop \<Rightarrow>
                      Some (if Type prop = ''string'' then VString ''example''
                            else if Type prop = ''integer'' then VInt 1
                            else if Type prop = ''number'' then VFloat 0
                            else if Type prop = ''boolean'' then VBool False
                            else VNil)))"
proof -
  have ks: "set ks = dom (Properties cs)"
    using assms by (simp add: range_order_def)
  show ?thesis
    by (rule ext) (simp add: dummyData_lookup [OF ks])
qed

lemma get_list_route:
  assumes "Split (Trim urlPath (CHR ''/'')) (CHR ''/'') = [entityName unicodeLower cs]"
  shows "catchAllHandler unicodeLower ord (Some cs) ''GET'' urlPath =
           \<lparr>status = 200, contentType = ''application/json'',
            body = Encoded (RList (listLoop ord (Some cs) 1 []))\<rparr>"
  using assms
  by (simp add: catchAllHandler_def MethodGet_def caseGet_def writeJSON_def StatusOK_def)

text \<open>
  C5. For every active schema \<open>cs\<close>, a GET request whose path has the one segment
  \<open>entityName cs\<close> is answered with status 200 and a list of exactly three objects,
  whatever the schema declares and in whatever order the three loops visit its
  properties. The object number \<open>i\<close> (1, 2, 3) has "id" = \<open>i\<close>, also when the schema
  declares no "id" or another type for it, and every other declared property holds the
  placeholder of its type tag; nothing else is in the object.
\<close>

theorem C5_get_list_three_items:
  assumes "Split (Trim urlPath (CHR ''/'')) (CHR ''/'') = [entityName unicodeLower cs]"
    and "range_order (Properties cs) (ord 0)"
    and "range_order (Properties cs) (ord 1)"
    and "range_order (Properties cs) (ord 2)"
  shows "catchAllHandler unicodeLower ord (Some cs) ''GET'' urlPath =
           \<lparr>status = 200, contentType = ''application/json'',
            body = Encoded (RList (map
              (\<lambda>i key. if key = ''id'' then Some (VInt i)
                 else (case Properties cs key of
                         None \<Rightarrow> None
                       | Some prop \<Rightarrow>
                           Some (if Type prop = ''string'' then VString ''example''
                                 else if Type prop = ''integer'' then VInt 1
                                 else if Type prop = ''number'' then VFloat 0
                                 else if Type prop = ''boolean'' then VBool False
                                 else VNil)))
              [1, 2, 3]))\<rparr>"
  by (simp only: get_list_route [OF assms(1)] listLoop_three
        dummyData_id_overwritten [OF assms(2)] dummyData_id_overwritten [OF assms(3)]
        dummyData_id_overwritten [OF assms(4)] list.map)

theorem C5_get_list_three_items_witness:
  "catchAllHandler (\<lambda>s. s) (\<lambda>n. [''id'', ''name'', ''email''])
     (Some createSampleSchema) ''GET'' ''/users''
   = \<lparr>status = 200, contentType = ''application/json'',
      body = Encoded (RList
        [[''name'' \<mapsto> VString ''example'', ''email'' \<mapsto> VString ''example'',
          ''id'' \<mapsto> VInt 1],
         [''name'' \<mapsto> VString ''example'', ''email'' \<mapsto> VString ''example'',
          ''id'' \<mapsto> VInt 2],
         [''name'' \<mapsto> VString ''example'', ''email'' \<mapsto> VString ''example'',
          ''id'' \<mapsto> VInt 3]])\<rparr>"
proof -
  have s1: "Split (Trim ''/users'' (CHR ''/'')) (CHR ''/'')
              = [entityName (\<lambda>s. s) createSampleSchema]"
    by (simp add: users_entity Trim_def)
  have ro: "range_order (Properties createSampleSchema) [''id'', ''name'', ''email'']"
    by (auto simp add: range_order_def createSampleSchema_def)
  have "\<And>i. (\<lambda>key. if key = ''id'' then Some (VInt i)
                 else (case Properties createSampleSchema key of
                         None \<Rightarrow> None
                       | Some prop \<Rightarrow>
                           Some (if Type prop = ''string'' then VString ''example''
                                 else if Type prop = ''integer'' then VInt 1
                                 else if Type prop = ''number'' then VFloat 0
                                 else if Type prop = ''boolean'' then VBool False
                                 else VNil)))
          = [''name'' \<mapsto> VString ''example'', ''email'' \<mapsto> VString ''example'',
             ''id'' \<mapsto> VInt i]"
    by (rule ext) (simp add: createSampleSchema_def)
  then show ?thesis
    using C5_get_list_three_items [OF s1, of "\<lambda>n. [''id'', ''name'', ''email'']", OF ro ro ro]
    by simp
qed

section \<open>Routes with an id segment, integer id\<close>

text \<open>
  C3. Let the active schema declare the property "id" with type "integer", and let the
  path have the two segments \<open>entityName cs\<close> and \<open>idSeg\<close>. If \<^verbatim>\<open>strconv.Atoi\<close> rejects
  \<open>idSeg\<close>, then GET, PUT and DELETE are each answered with status 400 and the text
  "Invalid ID format: expected integer". If it returns \<open>n\<close>, then GET and PUT are each
  answered with status 200 and the synthesized object in which "id" is the integer \<open>n\<close>
  (a \<open>VInt\<close>, not a \<open>VString\<close>), and DELETE is answered with the acknowledgment alone,
  which holds no synthesized object.
\<close>

theorem C3_integer_id_segment:
  assumes "Split (Trim urlPath (CHR ''/'')) (CHR ''/'') = [entityName unicodeLower cs, idSeg]"
    and "Properties cs ''id'' = Some idProp"
    and "Type idProp = ''integer''"
  shows "(Atoi idSeg = None \<longrightarrow>
            (\<forall>method \<in> {''GET'', ''PUT'', ''DELETE''}.
               catchAllHandler unicodeLower ord (Some cs) method urlPath =
                 \<lparr>status = 400, contentType = ''text/plain; charset=utf-8'',
                  body = Plain (''Invalid ID format: expected integer'' @ [CHR 0x0A])\<rparr>))
       \<and> (\<forall>n. Atoi idSeg = Some n \<longrightarrow>
            (\<forall>method \<in> {''GET'', ''PUT''}.
               catchAllHandler unicodeLower ord (Some cs) method urlPath =
                 \<lparr>status = 200, contentType = ''application/json'',
                  body = Encoded
                    (RObj ((dummyData (ord 0) (Some cs))(''id'' \<mapsto> VInt n)))\<rparr>)
            \<and> catchAllHandler unicodeLower ord (Some cs) ''DELETE'' urlPath =
                 \<lparr>status = 200, contentType = ''application/json'',
                  body = Encoded (RMsg [''message'' \<mapsto> ''Deleted successfully''])\<rparr>)"
  using assms
  by (simp add: catchAllHandler_def MethodGet_def MethodPost_def MethodPut_def
        MethodDelete_def caseGet_def casePut_def caseDelete_def isIntegerExpected_def
        writeJSON_def httpError_def StatusOK_def StatusBadRequest_def)

theorem C3_integer_id_segment_witness:
  "catchAllHandler (\<lambda>s. s) (\<lambda>n. [''id'', ''name'', ''email''])
     (Some createSampleSchema) ''GET'' ''/users/123''
   = \<lparr>status = 200, contentType = ''application/json'',
      body = Encoded (RObj [''name'' \<mapsto> VString ''example'',
                            ''email'' \<mapsto> VString ''example'', ''id'' \<mapsto> VInt 123])\<rparr>
   \<and> catchAllHandler (\<lambda>s. s) (\<lambda>n. [''id'', ''name'', ''email''])
     (Some createSampleSchema) ''DELETE'' ''/users/123''
   = \<lparr>status = 200, contentType = ''application/json'',
      body = Encoded (RMsg [''message'' \<mapsto> ''Deleted successfully''])\<rparr>
   \<and> status (catchAllHandler (\<lambda>s. s) (\<lambda>n. [''id'', ''name'', ''email''])
        (Some createSampleSchema) ''PUT'' ''/users/abc'') = 400"
proof -
  have s1: "Split (Trim ''/users/123'' (CHR ''/'')) (CHR ''/'')
              = [entityName (\<lambda>s. s) createSampleSchema, ''123'']"
    by (simp add: users_entity Trim_def)
  have s2: "Split (Trim ''/users/abc'' (CHR ''/'')) (CHR ''/'')
              = [entityName (\<lambda>s. s) createSampleSchema, ''abc'']"
    by (simp add: users_entity Trim_def)
  have idp: "Properties createSampleSchema ''id'' = Some \<lparr>Type = ''integer''\<rparr>"
    by (simp add: createSampleSchema_def)
  have ty: "Type \<lparr>Type = ''integer''\<rparr> = ''integer''" by simp
  have a1: "Atoi ''123'' = Some 123"
    by (simp add: Atoi_def parseDigits_def isDigit_def digitVal_def inRange_def intSize_def)
  have a2: "Atoi ''abc'' = None"
    by (simp add: Atoi_def parseDigits_def isDigit_def)
  have d: "(dummyData [''id'', ''name'', ''email''] (Some createSampleSchema))
              (''id'' \<mapsto> VInt 123)
             = [''name'' \<mapsto> VString ''example'', ''email'' \<mapsto> VString ''example'',
                ''id'' \<mapsto> VInt 123]"
    by (simp add: dummyData_def createSampleSchema_def)
  show ?thesis
    using C3_integer_id_segment [OF s1 idp ty, of "\<lambda>n. [''id'', ''name'', ''email'']"]
      C3_integer_id_segment [OF s2 idp ty, of "\<lambda>n. [''id'', ''name'', ''email'']"]
    by (simp add: a1 a2 d)
qed

section \<open>The delete route\<close>

text \<open>
  C6. For every active schema, a DELETE request whose path has the two segments
  \<open>entityName cs\<close> and \<open>idSeg\<close>, and whose id segment passes the validation (where the
  schema expects an integer id, \<^verbatim>\<open>strconv.Atoi\<close> accepts it), is answered with status
  200 and exactly the object with the one member "message" = "Deleted successfully". No
  object is synthesized: the answer is the same for every \<open>ord\<close>, so no loop over the
  properties takes part in it.
\<close>

theorem C6_delete_acknowledged:
  assumes "Split (Trim urlPath (CHR ''/'')) (CHR ''/'') = [entityName unicodeLower cs, idSeg]"
    and "isIntegerExpected cs \<longrightarrow> Atoi idSeg \<noteq> None"
  shows "catchAllHandler unicodeLower ord (Some cs) ''DELETE'' urlPath =
           \<lparr>status = 200, contentType = ''application/json'',
            body = Encoded (RMsg [''message'' \<mapsto> ''Deleted successfully''])\<rparr>"
  using assms
  by (auto simp add: catchAllHandler_def MethodGet_def MethodPost_def MethodPut_def
        MethodDelete_def caseDelete_def writeJSON_def StatusOK_def split: option.splits)

theorem C6_delete_acknowledged_witness:
  "catchAllHandler (\<lambda>s. s) (\<lambda>n. [])
     (Some createSampleSchema) ''DELETE'' ''/users/789''
   = \<lparr>status = 200, contentType = ''application/json'',
      body = Encoded (RMsg [''message'' \<mapsto> ''Deleted successfully''])\<rparr>"
proof -
  have s1: "Split (Trim ''/users/789'' (CHR ''/'')) (CHR ''/'')
              = [entityName (\<lambda>s. s) createSampleSchema, ''789'']"
    by (simp add: users_entity Trim_def)
  have v: "isIntegerExpected createSampleSchema \<longrightarrow> Atoi ''789'' \<noteq> None"
    by (simp add: Atoi_def parseDigits_def isDigit_def digitVal_def inRange_def intSize_def)
  show ?thesis using C6_delete_acknowledged [OF s1 v] by simp
qed

section \<open>Slashes around the path\<close>

lemma takeWhile_eq_replicate:
  "takeWhile (\<lambda>x. x = c) s = replicate (length (takeWhile (\<lambda>x. x = c) s)) c"
  by (induction s) auto

lemma Trim_decompose:
  "\<exists>a b. s = replicate a c @ Trim s c @ replicate b c"
proof -
  let ?P = "\<lambda>x. x = c"
  let ?M = "rev (dropWhile ?P (rev s))"
  have "rev s = takeWhile ?P (rev s) @ dropWhile ?P (rev s)" by simp
  then have "rev (rev s) = rev (takeWhile ?P (rev s) @ dropWhile ?P (rev s))"
    by (rule arg_cong)
  then have s: "s = ?M @ rev (takeWhile ?P (rev s))"
    by (simp only: rev_rev_ident rev_append)
  have "rev (takeWhile ?P (rev s)) = replicate (length (takeWhile ?P (rev s))) c"
    using takeWhile_eq_replicate [of c "rev s"] by (metis rev_replicate)
  then have s2: "s = ?M @ replicate (length (takeWhile ?P (rev s))) c"
    using s by simp
  have "?M = takeWhile ?P ?M @ dropWhile ?P ?M" by simp
  then have m: "?M = replicate (length (takeWhile ?P ?M)) c @ Trim s c"
    using takeWhile_eq_replicate [of c ?M] by (simp only: Trim_def)
  have "s = replicate (length (takeWhile ?P ?M)) c @ Trim s c
              @ replicate (length (takeWhile ?P (rev s))) c"
    using s2 m by (metis append_assoc)
  then show ?thesis by blast
qed

text \<open>
  C9. The path that is split into segments is the request path without its leading and
  trailing "/": the request path is some number of "/", then the trimmed path, then
  some number of "/", and the trimmed path neither starts nor ends with "/". So leading
  and trailing "/" do not change the answer: for every active schema, method and path,
  the handler answers the path with any number of "/" put before and after it as it
  answers the path itself. The root path "/" has the single segment "", and "" is not an
  entity name, since an entity name ends with "s".
\<close>

theorem C9_slashes_trimmed:
  "(\<exists>a b. urlPath = replicate a (CHR ''/'') @ Trim urlPath (CHR ''/'')
                        @ replicate b (CHR ''/''))
   \<and> (\<forall>t. Trim urlPath (CHR ''/'') \<noteq> CHR ''/'' # t
          \<and> Trim urlPath (CHR ''/'') \<noteq> t @ [CHR ''/''])
   \<and> catchAllHandler unicodeLower ord (Some cs) method
       (replicate m (CHR ''/'') @ urlPath @ replicate n (CHR ''/''))
     = catchAllHandler unicodeLower ord (Some cs) method urlPath
   \<and> Split (Trim ''/'' (CHR ''/'')) (CHR ''/'') = ['''']
   \<and> '''' \<noteq> entityName unicodeLower cs"
proof -
  have "Trim (replicate m (CHR ''/'') @ urlPath @ replicate n (CHR ''/'')) (CHR ''/'')
          = Trim urlPath (CHR ''/'')"
    using Trim_trailing [of "replicate m (CHR ''/'') @ urlPath" n "CHR ''/''"]
      Trim_leading [of m "CHR ''/''" urlPath] by simp
  then have "catchAllHandler unicodeLower ord (Some cs) method
       (replicate m (CHR ''/'') @ urlPath @ replicate n (CHR ''/''))
     = catchAllHandler unicodeLower ord (Some cs) method urlPath"
    by (simp add: catchAllHandler_def)
  moreover have "Split (Trim ''/'' (CHR ''/'')) (CHR ''/'') = ['''']"
    by (simp add: Trim_def)
  moreover have "'''' \<noteq> entityName unicodeLower cs"
    using entityName_nonempty [of unicodeLower cs] by simp
  ultimately show ?thesis
    using Trim_no_leading [of urlPath "CHR ''/''"] Trim_no_trailing [of urlPath "CHR ''/''"]
      Trim_decompose [of urlPath "CHR ''/''"]
    by blast
qed

theorem C9_slashes_trimmed_witness:
  "catchAllHandler (\<lambda>s. s) (\<lambda>n. [''id'', ''name'', ''email''])
     (Some createSampleSchema) ''GET'' ''/users/''
   = \<lparr>status = 200, contentType = ''application/json'',
      body = Encoded (RList
        [[''name'' \<mapsto> VString ''example'', ''email'' \<mapsto> VString ''example'',
          ''id'' \<mapsto> VInt 1],
         [''name'' \<mapsto> VString ''example'', ''email'' \<mapsto> VString ''example'',
          ''id'' \<mapsto> VInt 2],
         [''name'' \<mapsto> VString ''example'', ''email'' \<mapsto> VString ''example'',
          ''id'' \<mapsto> VInt 3]])\<rparr>
   \<and> catchAllHandler (\<lambda>s. s) (\<lambda>n. [''id'', ''name'', ''email''])
     (Some createSampleSchema) ''DELETE'' ''/users/789//''
   = \<lparr>status = 200, contentType = ''application/json'',
      body = Encoded (RMsg [''message'' \<mapsto> ''Deleted successfully''])\<rparr>
   \<and> Trim ''//users/789/'' (CHR ''/'') = ''users/789''
   \<and> status (catchAllHandler (\<lambda>s. s) (\<lambda>n. [''id'', ''name'', ''email''])
        (Some createSampleSchema) ''GET'' ''/'') = 404"
proof -
  have s1: "Split (Trim ''/users'' (CHR ''/'')) (CHR ''/'')
              = [entityName (\<lambda>s. s) createSampleSchema]"
    by (simp add: users_entity Trim_def)
  have list: "catchAllHandler (\<lambda>s. s) (\<lambda>n. [''id'', ''name'', ''email''])
     (Some createSampleSchema) ''GET'' ''/users''
   = \<lparr>status = 200, contentType = ''application/json'',
      body = Encoded (RList
        [[''name'' \<mapsto> VString ''example'', ''email'' \<mapsto> VString ''example'',
          ''id'' \<mapsto> VInt 1],
         [''name'' \<mapsto> VString ''example'', ''email'' \<mapsto> VString ''example'',
          ''id'' \<mapsto> VInt 2],
         [''name'' \<mapsto> VString ''example'', ''email'' \<mapsto> VString ''example'',
          ''id'' \<mapsto> VInt 3]])\<rparr>"
    using get_list_route [OF s1, of "\<lambda>n. [''id'', ''name'', ''email'']"]
    by (simp add: listLoop_three dummyData_def createSampleSchema_def)
  have ie: "isIntegerExpected createSampleSchema"
    by (simp add: isIntegerExpected_def createSampleSchema_def)
  have atoi: "Atoi ''789'' = Some 789"
    by (simp add: Atoi_def parseDigits_def isDigit_def digitVal_def inRange_def intSize_def)
  have del: "catchAllHandler (\<lambda>s. s) (\<lambda>n. [''id'', ''name'', ''email''])
     (Some createSampleSchema) ''DELETE'' ''/users/789''
   = \<lparr>status = 200, contentType = ''application/json'',
      body = Encoded (RMsg [''message'' \<mapsto> ''Deleted successfully''])\<rparr>"
    by (simp add: catchAllHandler_def MethodGet_def MethodPost_def MethodPut_def
          MethodDelete_def Trim_def users_entity caseDelete_def ie atoi
          writeJSON_def StatusOK_def)
  have tr: "Trim ''//users/789/'' (CHR ''/'') = ''users/789''"
    by (simp add: Trim_def)
  have root: "status (catchAllHandler (\<lambda>s. s) (\<lambda>n. [''id'', ''name'', ''email''])
        (Some createSampleSchema) ''GET'' ''/'') = 404"
    using C9_slashes_trimmed
      [of "''/''" "\<lambda>s. s" "\<lambda>n. [''id'', ''name'', ''email'']" createSampleSchema
          "''GET''" 0 0]
    by (simp add: catchAllHandler_def MethodGet_def caseGet_def
          NotFound_def httpError_def StatusNotFound_def)
  show ?thesis
    using
      C9_slashes_trimmed
        [of "''/users''" "\<lambda>s. s" "\<lambda>n. [''id'', ''name'', ''email'']" createSampleSchema
            "''GET''" 0 1]
      C9_slashes_trimmed
        [of "''/users/789''" "\<lambda>s. s" "\<lambda>n. [''id'', ''name'', ''email'']"
            createSampleSchema "''DELETE''" 0 2]
      list del tr root
    by (simp add: numeral_2_eq_2)
qed

section \<open>Uploads with an empty title\<close>

text \<open>
  C10. \<^verbatim>\<open>uploadHandler\<close> checks nothing after the decoder has returned without error.
  So for every request body that the decoder turns into a schema with the empty title
  (as \<^verbatim>\<open>encoding/json\<close> does for the bodies "null" and "{}", which leave the
  \<^verbatim>\<open>Schema\<close> variable at its zero value), a POST to the upload endpoint stores that
  schema and answers with status 200 and the title "". From then on the entity name is
  "s": GET /s is answered with status 200, and a GET whose path has one segment other
  than "s" is answered with status 404.
\<close>

theorem C10_empty_title_entity_s:
  assumes "decode reqBody = Inr schema"
    and "Title schema = ''''"
  shows "fst (uploadHandler decode currentSchema ''POST'' reqBody) = Some schema
       \<and> snd (uploadHandler decode currentSchema ''POST'' reqBody) =
           \<lparr>status = 200, contentType = ''application/json'',
            body = Encoded (RMsg [''message'' \<mapsto> ''Schema uploaded successfully'',
                                  ''title'' \<mapsto> ''''])\<rparr>
       \<and> entityName unicodeLower schema = ''s''
       \<and> status (catchAllHandler unicodeLower ord
             (fst (uploadHandler decode currentSchema ''POST'' reqBody)) ''GET'' ''/s'') = 200
       \<and> (\<forall>urlPath seg.
            Split (Trim urlPath (CHR ''/'')) (CHR ''/'') = [seg] \<and> seg \<noteq> ''s'' \<longrightarrow>
            status (catchAllHandler unicodeLower ord
              (fst (uploadHandler decode currentSchema ''POST'' reqBody)) ''GET'' urlPath)
              = 404)"
proof -
  have up: "uploadHandler decode currentSchema ''POST'' reqBody =
          (Some schema,
           \<lparr>status = 200, contentType = ''application/json'',
            body = Encoded (RMsg [''message'' \<mapsto> ''Schema uploaded successfully'',
                                  ''title'' \<mapsto> ''''])\<rparr>)"
    using assms by (simp add: uploadHandler_def MethodPost_def writeJSON_def StatusOK_def)
  have ent: "entityName unicodeLower schema = ''s''"
    using assms(2) by (simp add: entityName_def ToLower_def)
  have root: "status (catchAllHandler unicodeLower ord (Some schema) ''GET'' ''/s'') = 200"
    by (simp add: catchAllHandler_def MethodGet_def caseGet_def ent Trim_def
          writeJSON_def StatusOK_def)
  have other: "\<forall>urlPath seg.
            Split (Trim urlPath (CHR ''/'')) (CHR ''/'') = [seg] \<and> seg \<noteq> ''s'' \<longrightarrow>
            status (catchAllHandler unicodeLower ord (Some schema) ''GET'' urlPath) = 404"
    by (simp add: catchAllHandler_def MethodGet_def caseGet_def ent
          NotFound_def httpError_def StatusNotFound_def)
  show ?thesis using up ent root other by simp
qed

theorem C10_empty_title_entity_s_witness:
  "fst (uploadHandler
          (\<lambda>b. if b = ''null'' then Inr \<lparr>Title = '''', SchemaType = '''',
                                        Properties = Map.empty, Required = []\<rparr>
                else Inl ''invalid character'')
          (Some createSampleSchema) ''POST'' ''null'')
     = Some \<lparr>Title = '''', SchemaType = '''', Properties = Map.empty, Required = []\<rparr>
   \<and> status (snd (uploadHandler
          (\<lambda>b. if b = ''null'' then Inr \<lparr>Title = '''', SchemaType = '''',
                                        Properties = Map.empty, Required = []\<rparr>
                else Inl ''invalid character'')
          (Some createSampleSchema) ''POST'' ''null'')) = 200
   \<and> entityName (\<lambda>s. s)
        \<lparr>Title = '''', SchemaType = '''', Properties = Map.empty, Required = []\<rparr> = ''s''"
  using C10_empty_title_entity_s
    [of "\<lambda>b. if b = ''null'' then Inr \<lparr>Title = '''', SchemaType = '''',
                                        Properties = Map.empty, Required = []\<rparr>
              else Inl ''invalid character''"
        "''null''"
        "\<lparr>Title = '''', SchemaType = '''', Properties = Map.empty, Required = []\<rparr>"
        "Some createSampleSchema" "\<lambda>s. s" "\<lambda>n. []"]
  by simp

section \<open>The create route\<close>

text \<open>
  The POST case reads neither \<^verbatim>\<open>segments\<close> nor \<^verbatim>\<open>entity\<close>: with an active schema,
  every path is answered with the synthesized object in which "id" is 1.
\<close>

lemma post_any_path:
  "catchAllHandler unicodeLower ord (Some cs) ''POST'' urlPath =
     \<lparr>status = 200, contentType = ''application/json'',
      body = Encoded (RObj ((dummyData (ord 0) (Some cs))(''id'' \<mapsto> VInt 1)))\<rparr>"
  by (simp add: catchAllHandler_def MethodGet_def MethodPost_def casePost_def
        writeJSON_def StatusOK_def)

text \<open>
  C1. With the schema of the tests active (entity name "users"), POST /products is
  answered with status 200 and the synthesized object with "id" = 1, not with
  not-found; GET on the same path is answered with status 404.
\<close>

theorem C1_post_other_path_not_rejected:
  "catchAllHandler (\<lambda>s. s) (\<lambda>n. [''id'', ''name'', ''email''])
     (Some createSampleSchema) ''POST'' ''/products''
   = \<lparr>status = 200, contentType = ''application/json'',
      body = Encoded (RObj [''name'' \<mapsto> VString ''example'',
                            ''email'' \<mapsto> VString ''example'', ''id'' \<mapsto> VInt 1])\<rparr>
   \<and> status (catchAllHandler (\<lambda>s. s) (\<lambda>n. [''id'', ''name'', ''email''])
        (Some createSampleSchema) ''GET'' ''/products'') = 404"
  by (simp add: catchAllHandler_def MethodGet_def MethodPost_def
        Trim_def entityName_def ToLower_def lowerByte_def char_of_def bit_0
        caseGet_def casePost_def dummyData_def createSampleSchema_def
        writeJSON_def StatusOK_def NotFound_def httpError_def StatusNotFound_def)

section \<open>Routes with an id segment, string id\<close>

lemma find_snoc:
  "find P (xs @ [x]) =
     (case find P xs of Some y \<Rightarrow> Some y | None \<Rightarrow> if P x then Some x else None)"
  by (induction xs) auto

text \<open>
  What the loop of lines 116-129 computes. \<^verbatim>\<open>foundKey\<close> is set only on the way out of
  the loop, so the test \<^verbatim>\<open>!foundKey\<close> never fails and every string-typed property
  visited takes the place of the one before: the result is "id" when "id" is visited and
  string-typed, otherwise the string-typed property visited last, otherwise the
  default.
\<close>

lemma stringKey_loop_last_string:
  "stringKey_loop props ks stringKey False =
     (if ''id'' \<in> set ks \<and> map_option Type (props ''id'') = Some ''string'' then ''id''
      else (case find (\<lambda>k. map_option Type (props k) = Some ''string'') (rev ks) of
              Some k \<Rightarrow> k
            | None \<Rightarrow> stringKey))"
proof (induction ks arbitrary: stringKey)
  case Nil
  show ?case by simp
next
  case (Cons key rest)
  show ?case
  proof (cases "props key")
    case None
    then show ?thesis
      by (auto simp add: Cons.IH find_snoc split: option.splits)
  next
    case (Some p)
    then show ?thesis
      by (auto simp add: Cons.IH find_snoc split: option.splits)
  qed
qed

text \<open>
  C2. A schema with the two string-typed properties "name" and "email" and no "id".
  When the loop visits "name" and then "email", GET /users/abc writes "abc" to "email",
  the property visited last, and leaves "name" at its placeholder; when it visits
  "email" and then "name", PUT /users/abc writes "abc" to "name".
\<close>

theorem C2_last_string_property_overwritten:
  "catchAllHandler (\<lambda>s. s) (\<lambda>n. [''name'', ''email''])
     (Some \<lparr>Title = ''User'', SchemaType = ''object'',
            Properties = [''name'' \<mapsto> \<lparr>Type = ''string''\<rparr>,
                          ''email'' \<mapsto> \<lparr>Type = ''string''\<rparr>],
            Required = []\<rparr>)
     ''GET'' ''/users/abc''
   = \<lparr>status = 200, contentType = ''application/json'',
      body = Encoded (RObj [''name'' \<mapsto> VString ''example'',
                            ''email'' \<mapsto> VString ''abc''])\<rparr>
   \<and> catchAllHandler (\<lambda>s. s) (\<lambda>n. [''email'', ''name''])
     (Some \<lparr>Title = ''User'', SchemaType = ''object'',
            Properties = [''name'' \<mapsto> \<lparr>Type = ''string''\<rparr>,
                          ''email'' \<mapsto> \<lparr>Type = ''string''\<rparr>],
            Required = []\<rparr>)
     ''PUT'' ''/users/abc''
   = \<lparr>status = 200, contentType = ''application/json'',
      body = Encoded (RObj [''email'' \<mapsto> VString ''example'',
                            ''name'' \<mapsto> VString ''abc''])\<rparr>"
  by (simp add: catchAllHandler_def MethodGet_def MethodPost_def MethodPut_def
        Trim_def entityName_def ToLower_def lowerByte_def char_of_def bit_0
        caseGet_def casePut_def isIntegerExpected_def dummyData_def
        writeJSON_def StatusOK_def)

end
